theory Spec2Isabelle
  imports Complex_Main
begin

section \<open>Python values used by the screener\<close>

text \<open>
  The screener (\<^verbatim>\<open>app.py\<close>) reads fields out of the provider's \<^verbatim>\<open>info\<close>
  dictionary and passes most of them on unchanged, so a field holds whatever the provider
  sent: \<^verbatim>\<open>None\<close>, a number, \<^verbatim>\<open>nan\<close>, or a value that is not numeric at all, of which
  \<^verbatim>\<open>str\<close> is the representative here. The boolean operators \<^verbatim>\<open>and\<close>/\<open>or\<close> return one
  of their operands, so a predicate may also hold a \<^verbatim>\<open>bool\<close>. Finite floats and ints are
  modelled as reals (rounding, overflow and infinities are not modelled); \<^verbatim>\<open>nan\<close> is a
  value of its own.
\<close>

datatype pyval = PNone | PBool bool | PNum real | PNaN | PStr string

datatype py_error = TypeError | ZeroDivisionError | FetchFailed | SourceUnavailable

text \<open>
  Truth value testing: \<^verbatim>\<open>None\<close>, \<^verbatim>\<open>False\<close>, zero and the empty string are falsy;
  \<^verbatim>\<open>nan\<close> is truthy.
\<close>

fun truthy :: "pyval \<Rightarrow> bool" where
  "truthy PNone = False"
| "truthy (PBool b) = b"
| "truthy (PNum x) = (x \<noteq> 0)"
| "truthy PNaN = True"
| "truthy (PStr s) = (s \<noteq> [])"

text \<open>The numeric value of an int, float or bool operand (\<^verbatim>\<open>bool\<close> is a subclass of \<^verbatim>\<open>int\<close>).\<close>

fun num_of :: "pyval \<Rightarrow> real option" where
  "num_of (PNum x) = Some x"
| "num_of (PBool b) = Some (if b then 1 else 0)"
| "num_of PNone = None"
| "num_of PNaN = None"
| "num_of (PStr s) = None"

fun is_str :: "pyval \<Rightarrow> bool" where
  "is_str (PStr s) = True"
| "is_str v = False"

text \<open>
  Arithmetic raises \<^verbatim>\<open>TypeError\<close> on \<^verbatim>\<open>None\<close>; subtraction, true division and
  multiplication by a float raise it on a \<^verbatim>\<open>str\<close> as well, while a \<^verbatim>\<open>str\<close> times an
  \<^verbatim>\<open>int\<close> is the repeated string. True division raises \<^verbatim>\<open>ZeroDivisionError\<close> on a zero
  divisor, and \<^verbatim>\<open>nan\<close> propagates.
\<close>

definition py_mul_int :: "pyval \<Rightarrow> nat \<Rightarrow> py_error + pyval" where
  "py_mul_int a n =
     (case a of
        PNone \<Rightarrow> Inl TypeError
      | PStr s \<Rightarrow> Inr (PStr (concat (replicate n s)))
      | _ \<Rightarrow> (case num_of a of Some x \<Rightarrow> Inr (PNum (x * real n)) | None \<Rightarrow> Inr PNaN))"

definition py_mul_float :: "pyval \<Rightarrow> real \<Rightarrow> py_error + pyval" where
  "py_mul_float a c =
     (case a of
        PNone \<Rightarrow> Inl TypeError
      | PStr s \<Rightarrow> Inl TypeError
      | _ \<Rightarrow> (case num_of a of Some x \<Rightarrow> Inr (PNum (x * c)) | None \<Rightarrow> Inr PNaN))"

definition py_add :: "pyval \<Rightarrow> pyval \<Rightarrow> py_error + pyval" where
  "py_add a b =
     (if a = PNone \<or> b = PNone \<or> is_str a \<or> is_str b then Inl TypeError
      else case (num_of a, num_of b) of
             (Some x, Some y) \<Rightarrow> Inr (PNum (x + y))
           | _ \<Rightarrow> Inr PNaN)"

definition py_sub :: "pyval \<Rightarrow> pyval \<Rightarrow> py_error + pyval" where
  "py_sub a b =
     (if a = PNone \<or> b = PNone \<or> is_str a \<or> is_str b then Inl TypeError
      else case (num_of a, num_of b) of
             (Some x, Some y) \<Rightarrow> Inr (PNum (x - y))
           | _ \<Rightarrow> Inr PNaN)"

definition py_truediv :: "pyval \<Rightarrow> pyval \<Rightarrow> py_error + pyval" where
  "py_truediv a b =
     (if a = PNone \<or> b = PNone \<or> is_str a \<or> is_str b then Inl TypeError
      else case num_of b of
             Some y \<Rightarrow>
               (if y = 0 then Inl ZeroDivisionError
                else case num_of a of Some x \<Rightarrow> Inr (PNum (x / y)) | None \<Rightarrow> Inr PNaN)
           | None \<Rightarrow> Inr PNaN)"

text \<open>
  Ordering comparisons against a numeric threshold: \<^verbatim>\<open>None\<close> and \<^verbatim>\<open>str\<close> raise
  \<^verbatim>\<open>TypeError\<close>, and every comparison with \<^verbatim>\<open>nan\<close> is false.
\<close>

definition py_lt :: "pyval \<Rightarrow> real \<Rightarrow> py_error + pyval" where
  "py_lt a m =
     (if a = PNone \<or> is_str a then Inl TypeError
      else case num_of a of Some x \<Rightarrow> Inr (PBool (x < m)) | None \<Rightarrow> Inr (PBool False))"

definition py_gt :: "pyval \<Rightarrow> real \<Rightarrow> py_error + pyval" where
  "py_gt a m =
     (if a = PNone \<or> is_str a then Inl TypeError
      else case num_of a of Some x \<Rightarrow> Inr (PBool (x > m)) | None \<Rightarrow> Inr (PBool False))"

text \<open>
  \<^verbatim>\<open>a and b\<close> yields \<^verbatim>\<open>a\<close> when it is falsy and otherwise evaluates \<^verbatim>\<open>b\<close>;
  \<^verbatim>\<open>a or b\<close> yields \<^verbatim>\<open>a\<close> when it is truthy and otherwise evaluates \<^verbatim>\<open>b\<close>. An
  operand that is not evaluated cannot raise.
\<close>

definition py_and :: "py_error + pyval \<Rightarrow> py_error + pyval \<Rightarrow> py_error + pyval" where
  "py_and a b = (case a of Inl e \<Rightarrow> Inl e | Inr x \<Rightarrow> if truthy x then b else Inr x)"

definition py_or :: "py_error + pyval \<Rightarrow> py_error + pyval \<Rightarrow> py_error + pyval" where
  "py_or a b = (case a of Inl e \<Rightarrow> Inl e | Inr x \<Rightarrow> if truthy x then Inr x else b)"

definition bind_err :: "py_error + 'a \<Rightarrow> ('a \<Rightarrow> py_error + 'b) \<Rightarrow> py_error + 'b" where
  "bind_err r f = (case r of Inl e \<Rightarrow> Inl e | Inr x \<Rightarrow> f x)"

definition is_true :: "py_error + pyval \<Rightarrow> bool" where
  "is_true r = (case r of Inl e \<Rightarrow> False | Inr v \<Rightarrow> truthy v)"

section \<open>Metrics Fetcher\<close>

text \<open>
  The provider's \<^verbatim>\<open>info\<close> dictionary: text entries (\<^verbatim>\<open>longName\<close>, \<^verbatim>\<open>sector\<close>) and
  the entries read as numbers. \<^verbatim>\<open>info.get(k)\<close> is \<^verbatim>\<open>None\<close> for a missing key.
\<close>

record info =
  str_entries :: "string \<rightharpoonup> string"
  num_entries :: "string \<rightharpoonup> pyval"

definition info_get :: "info \<Rightarrow> string \<Rightarrow> pyval" where
  "info_get i k = (case num_entries i k of None \<Rightarrow> PNone | Some v \<Rightarrow> v)"

definition info_get_str :: "info \<Rightarrow> string \<Rightarrow> string \<Rightarrow> string" where
  "info_get_str i k dflt = (case str_entries i k of None \<Rightarrow> dflt | Some s \<Rightarrow> s)"

text \<open>The dictionary returned by \<^verbatim>\<open>fetch_stock_metrics\<close>, one field per key.\<close>

record metrics =
  Ticker :: string
  Company :: string
  Sector :: string
  Trailing_PE :: pyval
  Forward_PE :: pyval
  PEG_Ratio :: pyval
  ROE_pct :: pyval
  Debt_Equity :: pyval
  Earnings_Growth_pct :: pyval
  Revenue_Growth_pct :: pyval
  Rec_Score :: pyval
  Upside_pct :: pyval

text \<open>\<^verbatim>\<open>info.get(k) * 100 if info.get(k) else np.nan\<close>\<close>

definition pct_field :: "info \<Rightarrow> string \<Rightarrow> py_error + pyval" where
  "pct_field i k = (if truthy (info_get i k) then py_mul_int (info_get i k) 100 else Inr PNaN)"

text \<open>
  \<^verbatim>\<open>(target - current) / current * 100 if target and current else np.nan\<close>
\<close>

definition upside_field :: "info \<Rightarrow> py_error + pyval" where
  "upside_field i =
     (if is_true (py_and (Inr (info_get i ''targetMeanPrice'')) (Inr (info_get i ''currentPrice'')))
      then bind_err (py_sub (info_get i ''targetMeanPrice'') (info_get i ''currentPrice''))
             (\<lambda>d. bind_err (py_truediv d (info_get i ''currentPrice''))
               (\<lambda>q. py_mul_int q 100))
      else Inr PNaN)"

text \<open>
  The body of the \<^verbatim>\<open>try\<close> block. The provider lookup \<^verbatim>\<open>yf.Ticker(ticker).info\<close> is an
  external call that either raises or returns a dictionary. The lookups of
  \<^verbatim>\<open>marketCap\<close> and \<^verbatim>\<open>freeCashflow\<close> are never used and cannot raise; they are left out.
  Five fields are copied from the payload as they are.
\<close>

definition fetch_body :: "(string \<Rightarrow> py_error + info) \<Rightarrow> string \<Rightarrow> py_error + metrics" where
  "fetch_body provider ticker =
     bind_err (provider ticker) (\<lambda>i.
     bind_err (pct_field i ''returnOnEquity'') (\<lambda>roe.
     bind_err (pct_field i ''earningsGrowth'') (\<lambda>eg.
     bind_err (pct_field i ''revenueGrowth'') (\<lambda>rg.
     bind_err (upside_field i) (\<lambda>up.
       Inr \<lparr> Ticker = ticker,
             Company = info_get_str i ''longName'' '''',
             Sector = info_get_str i ''sector'' '''',
             Trailing_PE = info_get i ''trailingPE'',
             Forward_PE = info_get i ''forwardPE'',
             PEG_Ratio = info_get i ''pegRatio'',
             ROE_pct = roe,
             Debt_Equity = info_get i ''debtToEquity'',
             Earnings_Growth_pct = eg,
             Revenue_Growth_pct = rg,
             Rec_Score = info_get i ''recommendationMean'',
             Upside_pct = up \<rparr>)))))"

text \<open>The bare \<^verbatim>\<open>except\<close> turns every exception of the body into \<^verbatim>\<open>None\<close>.\<close>

definition fetch_stock_metrics :: "(string \<Rightarrow> py_error + info) \<Rightarrow> string \<Rightarrow> metrics option" where
  "fetch_stock_metrics provider ticker =
     (case fetch_body provider ticker of Inl e \<Rightarrow> None | Inr d \<Rightarrow> Some d)"

section \<open>Screening Engine\<close>

text \<open>The five sidebar sliders.\<close>

record thresholds =
  max_pe :: real
  max_forward_pe :: real
  max_peg :: real
  min_roe :: real
  min_upside :: real

text \<open>The clause \<^verbatim>\<open>(data[k] and data[k] < m)\<close> and its mirror image with \<^verbatim>\<open>>\<close>.\<close>

definition and_lt :: "pyval \<Rightarrow> real \<Rightarrow> py_error + pyval" where
  "and_lt v m = py_and (Inr v) (py_lt v m)"

definition and_gt :: "pyval \<Rightarrow> real \<Rightarrow> py_error + pyval" where
  "and_gt v m = py_and (Inr v) (py_gt v m)"

definition undervalued :: "thresholds \<Rightarrow> metrics \<Rightarrow> py_error + pyval" where
  "undervalued th d =
     py_or (py_or (and_lt (Trailing_PE d) (max_pe th))
                  (and_lt (Forward_PE d) (max_forward_pe th)))
           (and_lt (PEG_Ratio d) (max_peg th))"

definition growth :: "thresholds \<Rightarrow> metrics \<Rightarrow> py_error + pyval" where
  "growth th d =
     py_or (py_or (and_gt (Earnings_Growth_pct d) 8)
                  (and_gt (Revenue_Growth_pct d) 5))
           (and_gt (Upside_pct d) (min_upside th))"

definition quality :: "thresholds \<Rightarrow> metrics \<Rightarrow> py_error + pyval" where
  "quality th d =
     py_and (py_and (and_gt (ROE_pct d) (min_roe th))
                    (and_lt (Debt_Equity d) 150))
            (and_lt (Rec_Score d) 2.8)"

text \<open>
  The three assignments are evaluated in turn, outside any \<^verbatim>\<open>try\<close>, so each may raise;
  then comes the test \<^verbatim>\<open>if undervalued and growth and quality\<close>.
\<close>

definition passes :: "thresholds \<Rightarrow> metrics \<Rightarrow> py_error + bool" where
  "passes th d =
     bind_err (undervalued th d) (\<lambda>u.
     bind_err (growth th d) (\<lambda>g.
     bind_err (quality th d) (\<lambda>q.
       Inr (is_true (py_and (py_and (Inr u) (Inr g)) (Inr q))))))"

text \<open>
  One iteration of the scan. A returned dictionary always has twelve keys and is
  therefore truthy, so \<^verbatim>\<open>if data\<close> tests for \<^verbatim>\<open>None\<close>. The progress bar and the
  status line are display only and are left out.
\<close>

definition run_step ::
  "(string \<Rightarrow> py_error + info) \<Rightarrow> thresholds \<Rightarrow> metrics list \<Rightarrow> string \<Rightarrow> py_error + metrics list" where
  "run_step provider th results ticker =
     (case fetch_stock_metrics provider ticker of
        None \<Rightarrow> Inr results
      | Some d \<Rightarrow> bind_err (passes th d) (\<lambda>ok. Inr (if ok then results @ [d] else results)))"

fun run_loop ::
  "(string \<Rightarrow> py_error + info) \<Rightarrow> thresholds \<Rightarrow> string list \<Rightarrow> metrics list \<Rightarrow> py_error + metrics list" where
  "run_loop provider th [] results = Inr results"
| "run_loop provider th (t # ts) results =
     (case run_step provider th results t of
        Inl e \<Rightarrow> Inl e
      | Inr results' \<Rightarrow> run_loop provider th ts results')"

section \<open>Ranker and Reporter\<close>

text \<open>
  \<^verbatim>\<open>fillna(c)\<close> replaces a missing cell of a column by \<^verbatim>\<open>c\<close>; in the frame built
  from the result list both \<^verbatim>\<open>None\<close> and \<^verbatim>\<open>nan\<close> are missing cells. Any other cell
  is kept, so a \<^verbatim>\<open>str\<close> cell reaches the multiplication by a float and raises there.
\<close>

definition fillna :: "pyval \<Rightarrow> real \<Rightarrow> pyval" where
  "fillna v c = (if v = PNone \<or> v = PNaN then PNum c else v)"

definition value_score :: "metrics \<Rightarrow> py_error + pyval" where
  "value_score d =
     bind_err (py_mul_float (fillna (PEG_Ratio d) 999) 0.4) (\<lambda>a.
     bind_err (py_mul_float (fillna (Trailing_PE d) 999) 0.3) (\<lambda>b.
     bind_err (py_add a b) (\<lambda>ab.
     bind_err (py_mul_float (fillna (Upside_pct d) 0) 0.3) (\<lambda>c.
       py_sub ab c))))"

type_synonym row = "metrics \<times> pyval"

text \<open>The column assignment computes every cell; one cell that raises makes it raise.\<close>

fun add_value_score :: "metrics list \<Rightarrow> py_error + row list" where
  "add_value_score [] = Inr []"
| "add_value_score (d # ds) =
     bind_err (value_score d) (\<lambda>s.
     bind_err (add_value_score ds) (\<lambda>rows. Inr ((d, s) # rows)))"

text \<open>
  The outcome shown to the user: the warning of the \<^verbatim>\<open>else\<close> branch, or the ranked
  frame from which both the displayed table and the CSV download are rendered.
\<close>

datatype outcome = NoMatches | Found "row list"

text \<open>
  \<^verbatim>\<open>df.sort_values("Value Score")\<close> is the library's sort with its default
  \<^verbatim>\<open>kind\<close>; it is a parameter of the model.
\<close>

definition report ::
  "((row \<Rightarrow> pyval) \<Rightarrow> row list \<Rightarrow> row list) \<Rightarrow> metrics list \<Rightarrow> py_error + outcome" where
  "report sort_values results =
     (if results = [] then Inr NoMatches
      else bind_err (add_value_score results) (\<lambda>rows. Inr (Found (sort_values snd rows))))"

definition run ::
  "py_error + string list \<Rightarrow> (string \<Rightarrow> py_error + info) \<Rightarrow> thresholds
     \<Rightarrow> ((row \<Rightarrow> pyval) \<Rightarrow> row list \<Rightarrow> row list) \<Rightarrow> py_error + outcome" where
  "run universe provider th sort_values =
     bind_err universe (\<lambda>tickers.
     bind_err (run_loop provider th tickers []) (\<lambda>results.
       report sort_values results))"

section \<open>The specification's vocabulary\<close>

text \<open>
  A field is absent when its cell is missing: \<^verbatim>\<open>None\<close> for a key the provider
  did not send, \<^verbatim>\<open>nan\<close> for a derived field the fetcher could not compute.
\<close>

definition absent :: "pyval \<Rightarrow> bool" where
  "absent v = (v = PNone \<or> v = PNaN)"

text \<open>The specification's reading of a clause: the field is present and beyond the threshold.\<close>

definition spec_lt :: "pyval \<Rightarrow> real \<Rightarrow> bool" where
  "spec_lt v m = (case num_of v of Some x \<Rightarrow> x < m | None \<Rightarrow> False)"


definition spec_undervalued :: "thresholds \<Rightarrow> metrics \<Rightarrow> bool" where
  "spec_undervalued th d =
     (spec_lt (Trailing_PE d) (max_pe th) \<or> spec_lt (Forward_PE d) (max_forward_pe th)
      \<or> spec_lt (PEG_Ratio d) (max_peg th))"


text \<open>The specification's upside percent: computed whenever both prices are present.\<close>

definition spec_upside :: "pyval \<Rightarrow> pyval \<Rightarrow> pyval" where
  "spec_upside t c =
     (case (num_of t, num_of c) of (Some x, Some y) \<Rightarrow> PNum ((x - y) / y * 100) | _ \<Rightarrow> PNaN)"


text \<open>What the truthiness tests of the source accept: a present value that is not zero.\<close>

definition nonzero_lt :: "pyval \<Rightarrow> real \<Rightarrow> bool" where
  "nonzero_lt v m = (case num_of v of Some x \<Rightarrow> x \<noteq> 0 \<and> x < m | None \<Rightarrow> False)"

definition nonzero_gt :: "pyval \<Rightarrow> real \<Rightarrow> bool" where
  "nonzero_gt v m = (case num_of v of Some x \<Rightarrow> x \<noteq> 0 \<and> x > m | None \<Rightarrow> False)"

text \<open>Closed forms of the two fetcher expressions, used in the proofs below.\<close>

definition pct_val :: "pyval \<Rightarrow> pyval" where
  "pct_val v =
     (if truthy v
      then (case v of
              PStr s \<Rightarrow> PStr (concat (replicate 100 s))
            | _ \<Rightarrow> (case num_of v of Some x \<Rightarrow> PNum (x * 100) | None \<Rightarrow> PNaN))
      else PNaN)"

definition upside_val :: "pyval \<Rightarrow> pyval \<Rightarrow> pyval" where
  "upside_val t c =
     (if truthy t \<and> truthy c
      then (case (num_of t, num_of c) of
              (Some x, Some y) \<Rightarrow> PNum ((x - y) / y * 100)
            | _ \<Rightarrow> PNaN)
      else PNaN)"

text \<open>The snapshot built from a payload when the \<^verbatim>\<open>try\<close> block runs to its end.\<close>

definition snapshot :: "string \<Rightarrow> info \<Rightarrow> metrics" where
  "snapshot t i =
     \<lparr> Ticker = t,
       Company = info_get_str i ''longName'' '''',
       Sector = info_get_str i ''sector'' '''',
       Trailing_PE = info_get i ''trailingPE'',
       Forward_PE = info_get i ''forwardPE'',
       PEG_Ratio = info_get i ''pegRatio'',
       ROE_pct = pct_val (info_get i ''returnOnEquity''),
       Debt_Equity = info_get i ''debtToEquity'',
       Earnings_Growth_pct = pct_val (info_get i ''earningsGrowth''),
       Revenue_Growth_pct = pct_val (info_get i ''revenueGrowth''),
       Rec_Score = info_get i ''recommendationMean'',
       Upside_pct = upside_val (info_get i ''targetMeanPrice'') (info_get i ''currentPrice'') \<rparr>"

section \<open>A concrete scan\<close>

text \<open>
  The slider defaults, and a universe after the scenario of the specification:
  \<^verbatim>\<open>A\<close> passes every screen, \<^verbatim>\<open>B\<close> has no field at all, \<^verbatim>\<open>C\<close> is cheap but fails
  the quality screen, \<^verbatim>\<open>Z\<close> is \<^verbatim>\<open>A\<close> with a return on equity of exactly 0, and \<^verbatim>\<open>S\<close>
  is \<^verbatim>\<open>A\<close> with the trailing P/E sent as the text \<^verbatim>\<open>Infinity\<close>. Any other symbol makes
  the provider raise.
\<close>

definition default_thresholds :: thresholds where
  "default_thresholds =
     \<lparr> max_pe = 18, max_forward_pe = 15, max_peg = 1.2, min_roe = 8, min_upside = 15 \<rparr>"

definition info_A :: info where
  "info_A = \<lparr> str_entries = [''longName'' \<mapsto> ''Alpha Corp''],
               num_entries = [''trailingPE'' \<mapsto> PNum 12, ''earningsGrowth'' \<mapsto> PNum 0.1,
                              ''returnOnEquity'' \<mapsto> PNum 0.15, ''debtToEquity'' \<mapsto> PNum 50,
                              ''recommendationMean'' \<mapsto> PNum 2,
                              ''revenueGrowth'' \<mapsto> PNum 0,
                              ''targetMeanPrice'' \<mapsto> PNum 120, ''currentPrice'' \<mapsto> PNum 100] \<rparr>"

definition info_B :: info where
  "info_B = \<lparr> str_entries = Map.empty, num_entries = Map.empty \<rparr>"

definition info_C :: info where
  "info_C = \<lparr> str_entries = Map.empty,
               num_entries = [''pegRatio'' \<mapsto> PNum 0.9, ''returnOnEquity'' \<mapsto> PNum 0.05,
                              ''targetMeanPrice'' \<mapsto> PNum 0, ''currentPrice'' \<mapsto> PNum 100] \<rparr>"

definition info_Z :: info where
  "info_Z = info_A \<lparr> num_entries := (num_entries info_A)(''returnOnEquity'' \<mapsto> PNum 0) \<rparr>"

definition info_S :: info where
  "info_S = info_A \<lparr> num_entries := (num_entries info_A)(''trailingPE'' \<mapsto> PStr ''Infinity'') \<rparr>"


definition example_provider :: "string \<Rightarrow> py_error + info" where
  "example_provider t =
     (if t = ''A'' then Inr info_A
      else if t = ''B'' then Inr info_B
      else if t = ''C'' then Inr info_C
      else if t = ''Z'' then Inr info_Z
      else if t = ''S'' then Inr info_S
      else Inl FetchFailed)"

definition metrics_A :: metrics where
  "metrics_A = \<lparr> Ticker = ''A'', Company = ''Alpha Corp'', Sector = '''',
      Trailing_PE = PNum 12, Forward_PE = PNone, PEG_Ratio = PNone, ROE_pct = PNum 15,
      Debt_Equity = PNum 50, Earnings_Growth_pct = PNum 10, Revenue_Growth_pct = PNaN,
      Rec_Score = PNum 2, Upside_pct = PNum 20 \<rparr>"

definition metrics_B :: metrics where
  "metrics_B = \<lparr> Ticker = ''B'', Company = '''', Sector = '''',
      Trailing_PE = PNone, Forward_PE = PNone, PEG_Ratio = PNone, ROE_pct = PNaN,
      Debt_Equity = PNone, Earnings_Growth_pct = PNaN, Revenue_Growth_pct = PNaN,
      Rec_Score = PNone, Upside_pct = PNaN \<rparr>"

definition metrics_C :: metrics where
  "metrics_C = \<lparr> Ticker = ''C'', Company = '''', Sector = '''',
      Trailing_PE = PNone, Forward_PE = PNone, PEG_Ratio = PNum 0.9, ROE_pct = PNum 5,
      Debt_Equity = PNone, Earnings_Growth_pct = PNaN, Revenue_Growth_pct = PNaN,
      Rec_Score = PNone, Upside_pct = PNaN \<rparr>"

definition metrics_S :: metrics where
  "metrics_S = metrics_A \<lparr> Ticker := ''S'', Trailing_PE := PStr ''Infinity'' \<rparr>"

definition metrics_zero_pe :: metrics where
  "metrics_zero_pe = metrics_B \<lparr> Trailing_PE := PNum 0 \<rparr>"

section \<open>Evaluation of the clauses\<close>

lemma is_true_Inr: "is_true (Inr v) = truthy v"
  by (simp add: is_true_def)

lemma absent_num_of: "absent v \<Longrightarrow> num_of v = None"
  by (auto simp: absent_def)

lemma absent_not_str: "absent v \<Longrightarrow> \<not> is_str v"
  by (auto simp: absent_def)

lemma and_lt_Inr: "\<not> is_str v \<Longrightarrow> \<exists>r. and_lt v m = Inr r"
  by (cases v) (auto simp: and_lt_def py_and_def py_lt_def)

lemma and_gt_Inr: "\<not> is_str v \<Longrightarrow> \<exists>r. and_gt v m = Inr r"
  by (cases v) (auto simp: and_gt_def py_and_def py_gt_def)

text \<open>A clause that raises counts as not true, so these two hold for every value.\<close>

lemma is_true_and_lt: "is_true (and_lt v m) = nonzero_lt v m"
  by (cases v) (auto simp: and_lt_def py_and_def py_lt_def is_true_def nonzero_lt_def)

lemma is_true_and_gt: "is_true (and_gt v m) = nonzero_gt v m"
  by (cases v) (auto simp: and_gt_def py_and_def py_gt_def is_true_def nonzero_gt_def)

lemma py_or_Inr: "a = Inr x \<Longrightarrow> b = Inr y \<Longrightarrow> \<exists>r. py_or a b = Inr r"
  by (simp add: py_or_def)

lemma py_and_Inr: "a = Inr x \<Longrightarrow> b = Inr y \<Longrightarrow> \<exists>r. py_and a b = Inr r"
  by (simp add: py_and_def)

lemma is_true_py_or: "a = Inr x \<Longrightarrow> is_true (py_or a b) = (is_true a \<or> is_true b)"
  by (auto simp: py_or_def is_true_def)

lemma is_true_py_and: "a = Inr x \<Longrightarrow> is_true (py_and a b) = (is_true a \<and> is_true b)"
  by (auto simp: py_and_def is_true_def)

lemma nonzero_lt_absent: "absent v \<Longrightarrow> \<not> nonzero_lt v m"
  by (simp add: nonzero_lt_def absent_num_of)

lemma nonzero_gt_absent: "absent v \<Longrightarrow> \<not> nonzero_gt v m"
  by (simp add: nonzero_gt_def absent_num_of)

subsection \<open>On fields that are not text the three predicates never raise\<close>

lemma undervalued_Inr:
  assumes "\<not> is_str (Trailing_PE d)" "\<not> is_str (Forward_PE d)" "\<not> is_str (PEG_Ratio d)"
  shows "\<exists>r. undervalued th d = Inr r"
proof -
  obtain a b c where "and_lt (Trailing_PE d) (max_pe th) = Inr a"
    "and_lt (Forward_PE d) (max_forward_pe th) = Inr b" "and_lt (PEG_Ratio d) (max_peg th) = Inr c"
    using and_lt_Inr assms by metis
  then show ?thesis by (simp add: undervalued_def py_or_def)
qed

lemma growth_Inr:
  assumes "\<not> is_str (Earnings_Growth_pct d)" "\<not> is_str (Revenue_Growth_pct d)"
    "\<not> is_str (Upside_pct d)"
  shows "\<exists>r. growth th d = Inr r"
proof -
  obtain a b c where "and_gt (Earnings_Growth_pct d) 8 = Inr a"
    "and_gt (Revenue_Growth_pct d) 5 = Inr b" "and_gt (Upside_pct d) (min_upside th) = Inr c"
    using and_gt_Inr assms by metis
  then show ?thesis by (simp add: growth_def py_or_def)
qed

lemma quality_Inr:
  assumes "\<not> is_str (ROE_pct d)" "\<not> is_str (Debt_Equity d)" "\<not> is_str (Rec_Score d)"
  shows "\<exists>r. quality th d = Inr r"
proof -
  obtain a b c where "and_gt (ROE_pct d) (min_roe th) = Inr a"
    "and_lt (Debt_Equity d) 150 = Inr b" "and_lt (Rec_Score d) 2.8 = Inr c"
    using and_gt_Inr and_lt_Inr assms by metis
  then show ?thesis by (simp add: quality_def py_and_def)
qed

subsection \<open>Their truth values\<close>

lemma is_true_undervalued:
  assumes "\<not> is_str (Trailing_PE d)" "\<not> is_str (Forward_PE d)"
  shows "is_true (undervalued th d) =
     (nonzero_lt (Trailing_PE d) (max_pe th) \<or> nonzero_lt (Forward_PE d) (max_forward_pe th)
      \<or> nonzero_lt (PEG_Ratio d) (max_peg th))"
proof -
  obtain a where a: "and_lt (Trailing_PE d) (max_pe th) = Inr a"
    using and_lt_Inr assms by blast
  obtain b where b: "and_lt (Forward_PE d) (max_forward_pe th) = Inr b"
    using and_lt_Inr assms by blast
  obtain ab where ab:
    "py_or (and_lt (Trailing_PE d) (max_pe th)) (and_lt (Forward_PE d) (max_forward_pe th)) = Inr ab"
    using py_or_Inr [OF a b] by blast
  show ?thesis
    unfolding undervalued_def
    by (simp add: is_true_py_or [OF ab] is_true_py_or [OF a] is_true_and_lt)
qed

lemma is_true_growth:
  assumes "\<not> is_str (Earnings_Growth_pct d)" "\<not> is_str (Revenue_Growth_pct d)"
  shows "is_true (growth th d) =
     (nonzero_gt (Earnings_Growth_pct d) 8 \<or> nonzero_gt (Revenue_Growth_pct d) 5
      \<or> nonzero_gt (Upside_pct d) (min_upside th))"
proof -
  obtain a where a: "and_gt (Earnings_Growth_pct d) 8 = Inr a"
    using and_gt_Inr assms by blast
  obtain b where b: "and_gt (Revenue_Growth_pct d) 5 = Inr b"
    using and_gt_Inr assms by blast
  obtain ab where ab:
    "py_or (and_gt (Earnings_Growth_pct d) 8) (and_gt (Revenue_Growth_pct d) 5) = Inr ab"
    using py_or_Inr [OF a b] by blast
  show ?thesis
    unfolding growth_def
    by (simp add: is_true_py_or [OF ab] is_true_py_or [OF a] is_true_and_gt)
qed

lemma is_true_quality:
  assumes "\<not> is_str (ROE_pct d)" "\<not> is_str (Debt_Equity d)"
  shows "is_true (quality th d) =
     (nonzero_gt (ROE_pct d) (min_roe th) \<and> nonzero_lt (Debt_Equity d) 150
      \<and> nonzero_lt (Rec_Score d) 2.8)"
proof -
  obtain a where a: "and_gt (ROE_pct d) (min_roe th) = Inr a"
    using and_gt_Inr assms by blast
  obtain b where b: "and_lt (Debt_Equity d) 150 = Inr b"
    using and_lt_Inr assms by blast
  obtain ab where ab:
    "py_and (and_gt (ROE_pct d) (min_roe th)) (and_lt (Debt_Equity d) 150) = Inr ab"
    using py_and_Inr [OF a b] by blast
  show ?thesis
    unfolding quality_def
    by (simp add: is_true_py_and [OF ab] is_true_py_and [OF a] is_true_and_lt is_true_and_gt)
qed


lemma passes_eq:
  assumes "undervalued th d = Inr u" "growth th d = Inr g" "quality th d = Inr q"
  shows "passes th d = Inr (truthy u \<and> truthy g \<and> truthy q)"
  using assms by (simp add: passes_def bind_err_def is_true_def py_and_def)

section \<open>Evaluation of the fetcher\<close>

lemma pct_field_eq: "pct_field i k = Inr (pct_val (info_get i k))"
  by (cases "info_get i k") (auto simp: pct_field_def pct_val_def py_mul_int_def)

lemma upside_calc:
  "truthy t \<Longrightarrow> truthy c \<Longrightarrow> \<not> is_str t \<Longrightarrow> \<not> is_str c \<Longrightarrow>
   bind_err (py_sub t c) (\<lambda>d. bind_err (py_truediv d c) (\<lambda>q. py_mul_int q 100))
     = Inr (upside_val t c)"
  by (cases t; cases c)
     (auto simp: upside_val_def bind_err_def py_sub_def py_truediv_def py_mul_int_def)

lemma upside_field_eq:
  assumes "\<not> is_str (info_get i ''targetMeanPrice'')" "\<not> is_str (info_get i ''currentPrice'')"
  shows "upside_field i
           = Inr (upside_val (info_get i ''targetMeanPrice'') (info_get i ''currentPrice''))"
proof (cases "truthy (info_get i ''targetMeanPrice'') \<and> truthy (info_get i ''currentPrice'')")
  case True
  then show ?thesis
    using assms by (simp add: upside_field_def is_true_def py_and_def upside_calc)
next
  case False
  then show ?thesis
    by (auto simp: upside_field_def is_true_def py_and_def upside_val_def)
qed

text \<open>A falsy price, text or not, ends the guard before any arithmetic.\<close>

lemma upside_field_falsy:
  "\<not> truthy (info_get i ''targetMeanPrice'') \<or> \<not> truthy (info_get i ''currentPrice'')
     \<Longrightarrow> upside_field i = Inr PNaN"
  by (auto simp: upside_field_def is_true_def py_and_def)


lemma fetch_body_ok:
  assumes "provider t = Inr i"
    and "\<not> is_str (info_get i ''targetMeanPrice'')" "\<not> is_str (info_get i ''currentPrice'')"
  shows "fetch_body provider t = Inr (snapshot t i)"
  using assms
  by (simp add: fetch_body_def bind_err_def pct_field_eq upside_field_eq snapshot_def)

text \<open>Whatever the payload, a snapshot that is returned has its three ratio fields converted.\<close>

lemma fetch_body_fields:
  assumes "provider t = Inr i" and "fetch_body provider t = Inr d"
  shows "Ticker d = t
     \<and> Trailing_PE d = info_get i ''trailingPE''
     \<and> Forward_PE d = info_get i ''forwardPE''
     \<and> PEG_Ratio d = info_get i ''pegRatio''
     \<and> Debt_Equity d = info_get i ''debtToEquity''
     \<and> Rec_Score d = info_get i ''recommendationMean''
     \<and> ROE_pct d = pct_val (info_get i ''returnOnEquity'')
     \<and> Earnings_Growth_pct d = pct_val (info_get i ''earningsGrowth'')
     \<and> Revenue_Growth_pct d = pct_val (info_get i ''revenueGrowth'')
     \<and> upside_field i = Inr (Upside_pct d)"
  using assms
  by (cases "upside_field i") (auto simp: fetch_body_def bind_err_def pct_field_eq)

lemma fetch_Some_iff: "fetch_stock_metrics provider t = Some d \<longleftrightarrow> fetch_body provider t = Inr d"
  by (simp add: fetch_stock_metrics_def split: sum.splits)

section \<open>Evaluation of the score\<close>



section \<open>The concrete scan, fetched\<close>

lemma snapshot_A: "snapshot ''A'' info_A = metrics_A"
  by (simp add: snapshot_def metrics_A_def info_A_def info_get_def info_get_str_def
        pct_val_def upside_val_def)

lemma snapshot_B: "snapshot ''B'' info_B = metrics_B"
  by (simp add: snapshot_def metrics_B_def info_B_def info_get_def info_get_str_def
        pct_val_def upside_val_def)

lemma snapshot_C: "snapshot ''C'' info_C = metrics_C"
  by (simp add: snapshot_def metrics_C_def info_C_def info_get_def info_get_str_def
        pct_val_def upside_val_def)

lemma snapshot_S: "snapshot ''S'' info_S = metrics_S"
  by (simp add: snapshot_def metrics_S_def metrics_A_def info_S_def info_A_def info_get_def
        info_get_str_def pct_val_def upside_val_def)

lemma fetch_A: "fetch_stock_metrics example_provider ''A'' = Some metrics_A"
proof -
  have "example_provider ''A'' = Inr info_A"
    by (simp add: example_provider_def)
  moreover have "\<not> is_str (info_get info_A ''targetMeanPrice'')"
    "\<not> is_str (info_get info_A ''currentPrice'')"
    by (simp_all add: info_get_def info_A_def)
  ultimately have "fetch_body example_provider ''A'' = Inr (snapshot ''A'' info_A)"
    by (rule fetch_body_ok)
  then show ?thesis
    by (simp add: fetch_Some_iff snapshot_A)
qed

lemma fetch_B: "fetch_stock_metrics example_provider ''B'' = Some metrics_B"
proof -
  have "example_provider ''B'' = Inr info_B"
    by (simp add: example_provider_def)
  moreover have "\<not> is_str (info_get info_B ''targetMeanPrice'')"
    "\<not> is_str (info_get info_B ''currentPrice'')"
    by (simp_all add: info_get_def info_B_def)
  ultimately have "fetch_body example_provider ''B'' = Inr (snapshot ''B'' info_B)"
    by (rule fetch_body_ok)
  then show ?thesis
    by (simp add: fetch_Some_iff snapshot_B)
qed

lemma fetch_C: "fetch_stock_metrics example_provider ''C'' = Some metrics_C"
proof -
  have "example_provider ''C'' = Inr info_C"
    by (simp add: example_provider_def)
  moreover have "\<not> is_str (info_get info_C ''targetMeanPrice'')"
    "\<not> is_str (info_get info_C ''currentPrice'')"
    by (simp_all add: info_get_def info_C_def)
  ultimately have "fetch_body example_provider ''C'' = Inr (snapshot ''C'' info_C)"
    by (rule fetch_body_ok)
  then show ?thesis
    by (simp add: fetch_Some_iff snapshot_C)
qed

lemma fetch_S: "fetch_stock_metrics example_provider ''S'' = Some metrics_S"
proof -
  have "example_provider ''S'' = Inr info_S"
    by (simp add: example_provider_def)
  moreover have "\<not> is_str (info_get info_S ''targetMeanPrice'')"
    "\<not> is_str (info_get info_S ''currentPrice'')"
    by (simp_all add: info_get_def info_S_def info_A_def)
  ultimately have "fetch_body example_provider ''S'' = Inr (snapshot ''S'' info_S)"
    by (rule fetch_body_ok)
  then show ?thesis
    by (simp add: fetch_Some_iff snapshot_S)
qed


lemma fetch_ZZ: "fetch_stock_metrics example_provider ''ZZ'' = None"
  by (simp add: fetch_stock_metrics_def fetch_body_def bind_err_def example_provider_def)

lemma passes_A: "passes default_thresholds metrics_A = Inr True"
  by (simp add: passes_def undervalued_def growth_def quality_def and_lt_def and_gt_def
        py_or_def py_and_def py_lt_def py_gt_def bind_err_def is_true_def
        metrics_A_def default_thresholds_def)

lemma passes_B: "passes default_thresholds metrics_B = Inr False"
  by (simp add: passes_def undervalued_def growth_def quality_def and_lt_def and_gt_def
        py_or_def py_and_def py_lt_def py_gt_def bind_err_def is_true_def
        metrics_B_def default_thresholds_def)

lemma passes_C: "passes default_thresholds metrics_C = Inr False"
  by (simp add: passes_def undervalued_def growth_def quality_def and_lt_def and_gt_def
        py_or_def py_and_def py_lt_def py_gt_def bind_err_def is_true_def
        metrics_C_def default_thresholds_def)

lemma passes_S: "passes default_thresholds metrics_S = Inl TypeError"
  by (simp add: passes_def undervalued_def and_lt_def py_or_def py_and_def py_lt_def
        bind_err_def metrics_S_def metrics_A_def default_thresholds_def)

section \<open>Screening predicates\<close>




text \<open>
  Against C3 as stated: a trailing P/E of exactly 0 is present and below \<^verbatim>\<open>max_pe = 18\<close>,
  so the stated condition holds, but \<^verbatim>\<open>undervalued\<close> evaluates to \<^verbatim>\<open>None\<close>.
\<close>

theorem C3_zero_pe_counterexample:
  "spec_undervalued default_thresholds metrics_zero_pe
   \<and> undervalued default_thresholds metrics_zero_pe = Inr PNone
   \<and> \<not> is_true (undervalued default_thresholds metrics_zero_pe)"
  by (simp add: spec_undervalued_def spec_lt_def undervalued_def and_lt_def py_or_def py_and_def
        py_lt_def is_true_def metrics_zero_pe_def metrics_B_def default_thresholds_def)

text \<open>
  C3 (amended): for every snapshot whose three valuation fields are numbers or absent, and
  every threshold configuration, \<^verbatim>\<open>undervalued\<close> raises nothing and is true if and only
  if trailing P/E is present, nonzero and below \<^verbatim>\<open>max_pe\<close>, or forward P/E is present,
  nonzero and below \<^verbatim>\<open>max_forward_pe\<close>, or the PEG ratio is present, nonzero and below
  \<^verbatim>\<open>max_peg\<close>. With trailing P/E 10 and \<^verbatim>\<open>max_pe\<close> 18 it is \<^verbatim>\<open>True\<close> whatever the
  other two fields hold, and with all three fields absent it is false.
\<close>

theorem C3_undervalued_nonzero:
  "(\<not> is_str (Trailing_PE d) \<and> \<not> is_str (Forward_PE d) \<and> \<not> is_str (PEG_Ratio d) \<longrightarrow>
      (\<exists>r. undervalued th d = Inr r)
      \<and> is_true (undervalued th d) =
          (nonzero_lt (Trailing_PE d) (max_pe th) \<or> nonzero_lt (Forward_PE d) (max_forward_pe th)
           \<or> nonzero_lt (PEG_Ratio d) (max_peg th)))
   \<and> (Trailing_PE d = PNum 10 \<and> max_pe th = 18 \<longrightarrow> undervalued th d = Inr (PBool True))
   \<and> (absent (Trailing_PE d) \<and> absent (Forward_PE d) \<and> absent (PEG_Ratio d) \<longrightarrow>
        \<not> is_true (undervalued th d))"
proof -
  have "Trailing_PE d = PNum 10 \<Longrightarrow> max_pe th = 18 \<Longrightarrow> undervalued th d = Inr (PBool True)"
    by (simp add: undervalued_def and_lt_def py_or_def py_and_def py_lt_def)
  then show ?thesis
    using undervalued_Inr [of d th]
    by (auto simp: is_true_undervalued nonzero_lt_absent absent_not_str)
qed

theorem C3_undervalued_nonzero_witness:
  "Trailing_PE (metrics_B \<lparr> Trailing_PE := PNum 10 \<rparr>) = PNum 10 \<and> max_pe default_thresholds = 18
   \<and> undervalued default_thresholds (metrics_B \<lparr> Trailing_PE := PNum 10 \<rparr>) = Inr (PBool True)
   \<and> absent (Trailing_PE metrics_B) \<and> absent (Forward_PE metrics_B) \<and> absent (PEG_Ratio metrics_B)
   \<and> \<not> is_true (undervalued default_thresholds metrics_B)
   \<and> \<not> is_str (Trailing_PE metrics_A) \<and> \<not> is_str (Forward_PE metrics_A)
   \<and> \<not> is_str (PEG_Ratio metrics_A)
   \<and> nonzero_lt (Trailing_PE metrics_A) (max_pe default_thresholds)
   \<and> is_true (undervalued default_thresholds metrics_A)"
proof -
  have t: "Trailing_PE (metrics_B \<lparr> Trailing_PE := PNum 10 \<rparr>) = PNum 10"
    by simp
  have m: "max_pe default_thresholds = 18"
    by (simp add: default_thresholds_def)
  have a: "absent (Trailing_PE metrics_B) \<and> absent (Forward_PE metrics_B)
           \<and> absent (PEG_Ratio metrics_B)"
    by (simp add: metrics_B_def absent_def)
  have s: "\<not> is_str (Trailing_PE metrics_A) \<and> \<not> is_str (Forward_PE metrics_A)
           \<and> \<not> is_str (PEG_Ratio metrics_A)"
    by (simp add: metrics_A_def)
  have z: "nonzero_lt (Trailing_PE metrics_A) (max_pe default_thresholds)"
    by (simp add: metrics_A_def nonzero_lt_def m)
  from C3_undervalued_nonzero [of "metrics_B \<lparr> Trailing_PE := PNum 10 \<rparr>" default_thresholds] t m
  have u: "undervalued default_thresholds (metrics_B \<lparr> Trailing_PE := PNum 10 \<rparr>) = Inr (PBool True)"
    by blast
  from C3_undervalued_nonzero [of metrics_B default_thresholds] a
  have n: "\<not> is_true (undervalued default_thresholds metrics_B)"
    by blast
  from C3_undervalued_nonzero [of metrics_A default_thresholds] s z
  have y: "is_true (undervalued default_thresholds metrics_A)"
    by blast
  from t m a u n s z y show ?thesis by blast
qed

text \<open>
  C6: for every threshold configuration, a snapshot in which each of the nine fields read
  by \<^verbatim>\<open>undervalued\<close>, \<^verbatim>\<open>growth\<close> and \<^verbatim>\<open>quality\<close> is absent does not pass: the
  conjunction of the three predicates evaluates, without raising, to false.
\<close>

theorem C6_all_absent_fails:
  assumes "absent (Trailing_PE d)" "absent (Forward_PE d)" "absent (PEG_Ratio d)"
    and "absent (Earnings_Growth_pct d)" "absent (Revenue_Growth_pct d)" "absent (Upside_pct d)"
    and "absent (ROE_pct d)" "absent (Debt_Equity d)" "absent (Rec_Score d)"
  shows "passes th d = Inr False
         \<and> \<not> is_true (undervalued th d) \<and> \<not> is_true (growth th d) \<and> \<not> is_true (quality th d)"
proof -
  obtain u where u: "undervalued th d = Inr u"
    using undervalued_Inr [of d th] assms by (auto simp: absent_not_str)
  obtain g where g: "growth th d = Inr g"
    using growth_Inr [of d th] assms by (auto simp: absent_not_str)
  obtain q where q: "quality th d = Inr q"
    using quality_Inr [of d th] assms by (auto simp: absent_not_str)
  have nu: "\<not> is_true (undervalued th d)"
    using assms by (simp add: is_true_undervalued absent_not_str nonzero_lt_absent)
  have ng: "\<not> is_true (growth th d)"
    using assms by (simp add: is_true_growth absent_not_str nonzero_gt_absent)
  have nq: "\<not> is_true (quality th d)"
    using assms by (simp add: is_true_quality absent_not_str nonzero_gt_absent)
  from nu u have "\<not> truthy u"
    by (simp add: is_true_Inr)
  then have "passes th d = Inr False"
    by (simp add: passes_eq [OF u g q])
  with nu ng nq show ?thesis by blast
qed

theorem C6_all_absent_fails_witness:
  "absent (Trailing_PE metrics_B) \<and> absent (Forward_PE metrics_B) \<and> absent (PEG_Ratio metrics_B)
   \<and> absent (Earnings_Growth_pct metrics_B) \<and> absent (Revenue_Growth_pct metrics_B)
   \<and> absent (Upside_pct metrics_B)
   \<and> absent (ROE_pct metrics_B) \<and> absent (Debt_Equity metrics_B) \<and> absent (Rec_Score metrics_B)
   \<and> passes default_thresholds metrics_B = Inr False"
proof -
  have a: "absent (Trailing_PE metrics_B)" "absent (Forward_PE metrics_B)"
    "absent (PEG_Ratio metrics_B)" "absent (Earnings_Growth_pct metrics_B)"
    "absent (Revenue_Growth_pct metrics_B)" "absent (Upside_pct metrics_B)"
    "absent (ROE_pct metrics_B)" "absent (Debt_Equity metrics_B)" "absent (Rec_Score metrics_B)"
    by (simp_all add: metrics_B_def absent_def)
  from C6_all_absent_fails [OF a, of default_thresholds] a show ?thesis by blast
qed

section \<open>Metrics Fetcher: derived fields\<close>

text \<open>
  Against C5 as stated: a target price of exactly 0 with a current price of 100 is a pair
  of present values, for which the stated formula gives \<open>-100\<close>; the fetcher records
  \<^verbatim>\<open>nan\<close>.
\<close>

theorem C5_zero_target_counterexample:
  "upside_field info_C = Inr PNaN
   \<and> spec_upside (info_get info_C ''targetMeanPrice'') (info_get info_C ''currentPrice'')
       = PNum (- 100)
   \<and> upside_field info_C
       \<noteq> Inr (spec_upside (info_get info_C ''targetMeanPrice'') (info_get info_C ''currentPrice''))"
proof -
  have "upside_field info_C = Inr PNaN"
    by (rule upside_field_falsy) (simp add: info_get_def info_C_def)
  then show ?thesis
    by (simp add: spec_upside_def info_get_def info_C_def)
qed

text \<open>
  C5 (amended): for every fetched snapshot the upside percent equals
  \<open>(target - current) / current * 100\<close> whenever both the current price and the target
  price are present and nonzero, and is absent (\<^verbatim>\<open>nan\<close>) whenever either of them is
  absent or zero; a snapshot is fetched whenever the lookup succeeds and neither price is
  text.
\<close>

theorem C5_upside_nonzero_prices:
  assumes "provider t = Inr i"
  shows "(\<not> is_str (info_get i ''targetMeanPrice'') \<and> \<not> is_str (info_get i ''currentPrice'')
            \<longrightarrow> (\<exists>d. fetch_stock_metrics provider t = Some d))
     \<and> (\<forall>d. fetch_stock_metrics provider t = Some d \<longrightarrow>
          (\<forall>x y. info_get i ''targetMeanPrice'' = PNum x \<and> info_get i ''currentPrice'' = PNum y
              \<and> x \<noteq> 0 \<and> y \<noteq> 0 \<longrightarrow> Upside_pct d = PNum ((x - y) / y * 100))
          \<and> (info_get i ''targetMeanPrice'' \<in> {PNone, PNaN, PNum 0}
               \<or> info_get i ''currentPrice'' \<in> {PNone, PNaN, PNum 0} \<longrightarrow> Upside_pct d = PNaN))"
proof -
  have ex: "\<not> is_str (info_get i ''targetMeanPrice'') \<Longrightarrow> \<not> is_str (info_get i ''currentPrice'')
              \<Longrightarrow> \<exists>d. fetch_stock_metrics provider t = Some d"
    using fetch_body_ok [of provider t i] assms by (simp add: fetch_Some_iff)
  have up: "upside_field i = Inr (Upside_pct d)" if "fetch_stock_metrics provider t = Some d" for d
    using fetch_body_fields [of provider t i d] assms that by (simp add: fetch_Some_iff)
  have num: "Upside_pct d = PNum ((x - y) / y * 100)"
    if "fetch_stock_metrics provider t = Some d" "info_get i ''targetMeanPrice'' = PNum x"
      "info_get i ''currentPrice'' = PNum y" "x \<noteq> 0" "y \<noteq> 0" for d x y
    using up [OF that(1)] upside_field_eq [of i] that(2-5)
    by (simp add: upside_val_def)
  have nan: "Upside_pct d = PNaN"
    if "fetch_stock_metrics provider t = Some d"
      "info_get i ''targetMeanPrice'' \<in> {PNone, PNaN, PNum 0}
       \<or> info_get i ''currentPrice'' \<in> {PNone, PNaN, PNum 0}" for d
  proof (cases "truthy (info_get i ''targetMeanPrice'') \<and> truthy (info_get i ''currentPrice'')")
    case False
    then show ?thesis
      using up [OF that(1)] upside_field_falsy [of i] by auto
  next
    case True
    with that(2) have n: "info_get i ''targetMeanPrice'' = PNaN \<or> info_get i ''currentPrice'' = PNaN"
      by auto
    have "upside_field i = Inr (Upside_pct d)"
      by (rule up [OF that(1)])
    with True n show ?thesis
      by (cases "info_get i ''targetMeanPrice''"; cases "info_get i ''currentPrice''")
         (auto simp: upside_field_def is_true_def py_and_def bind_err_def py_sub_def
            py_truediv_def py_mul_int_def split: if_splits)
  qed
  from ex num nan show ?thesis
    by blast
qed

theorem C5_upside_nonzero_prices_witness:
  "example_provider ''A'' = Inr info_A
   \<and> info_get info_A ''targetMeanPrice'' = PNum 120 \<and> info_get info_A ''currentPrice'' = PNum 100
   \<and> example_provider ''C'' = Inr info_C \<and> info_get info_C ''targetMeanPrice'' = PNum 0
   \<and> fetch_stock_metrics example_provider ''A'' = Some metrics_A
   \<and> Upside_pct metrics_A = PNum ((120 - 100) / 100 * 100)
   \<and> fetch_stock_metrics example_provider ''C'' = Some metrics_C
   \<and> Upside_pct metrics_C = PNaN"
proof -
  have pa: "example_provider ''A'' = Inr info_A" and pc: "example_provider ''C'' = Inr info_C"
    by (simp_all add: example_provider_def)
  have ta: "info_get info_A ''targetMeanPrice'' = PNum 120"
    and ca: "info_get info_A ''currentPrice'' = PNum 100"
    and tc: "info_get info_C ''targetMeanPrice'' = PNum 0"
    by (simp_all add: info_get_def info_A_def info_C_def)
  have nz: "(120::real) \<noteq> 0 \<and> (100::real) \<noteq> 0"
    by simp
  from C5_upside_nonzero_prices [of example_provider "''A''" info_A] pa fetch_A ta ca nz
  have a: "Upside_pct metrics_A = PNum ((120 - 100) / 100 * 100)"
    by blast
  from C5_upside_nonzero_prices [of example_provider "''C''" info_C] pc fetch_C tc
  have c: "Upside_pct metrics_C = PNaN"
    by blast
  from pa pc ta ca tc a c fetch_A fetch_C show ?thesis by blast
qed



text \<open>
  C10: in every fetched snapshot a ratio field (return on equity, earnings growth,
  revenue growth) that is exactly 0 is recorded as \<^verbatim>\<open>nan\<close>, and a nonzero ratio is
  recorded multiplied by 100; a snapshot is fetched whenever the lookup succeeds and
  neither price is text.
\<close>

theorem C10_zero_ratio_recorded_as_nan:
  assumes "provider t = Inr i"
  shows "(\<not> is_str (info_get i ''targetMeanPrice'') \<and> \<not> is_str (info_get i ''currentPrice'')
            \<longrightarrow> (\<exists>d. fetch_stock_metrics provider t = Some d))
     \<and> (\<forall>d. fetch_stock_metrics provider t = Some d \<longrightarrow>
          (\<forall>x. info_get i ''returnOnEquity'' = PNum x \<longrightarrow>
             ROE_pct d = (if x = 0 then PNaN else PNum (x * 100)))
          \<and> (\<forall>x. info_get i ''earningsGrowth'' = PNum x \<longrightarrow>
             Earnings_Growth_pct d = (if x = 0 then PNaN else PNum (x * 100)))
          \<and> (\<forall>x. info_get i ''revenueGrowth'' = PNum x \<longrightarrow>
             Revenue_Growth_pct d = (if x = 0 then PNaN else PNum (x * 100))))"
proof -
  have ex: "\<not> is_str (info_get i ''targetMeanPrice'') \<Longrightarrow> \<not> is_str (info_get i ''currentPrice'')
              \<Longrightarrow> \<exists>d. fetch_stock_metrics provider t = Some d"
    using fetch_body_ok [of provider t i] assms by (simp add: fetch_Some_iff)
  have p: "pct_val (PNum x) = (if x = 0 then PNaN else PNum (x * 100))" for x
    by (simp add: pct_val_def)
  have f: "ROE_pct d = pct_val (info_get i ''returnOnEquity'')
           \<and> Earnings_Growth_pct d = pct_val (info_get i ''earningsGrowth'')
           \<and> Revenue_Growth_pct d = pct_val (info_get i ''revenueGrowth'')"
    if "fetch_stock_metrics provider t = Some d" for d
    using fetch_body_fields [of provider t i d] assms that by (simp add: fetch_Some_iff)
  from ex show ?thesis
    using f by (auto simp: p)
qed

theorem C10_zero_ratio_recorded_as_nan_witness:
  "example_provider ''A'' = Inr info_A
   \<and> info_get info_A ''returnOnEquity'' = PNum 0.15
   \<and> info_get info_A ''earningsGrowth'' = PNum 0.1
   \<and> info_get info_A ''revenueGrowth'' = PNum 0
   \<and> fetch_stock_metrics example_provider ''A'' = Some metrics_A
   \<and> ROE_pct metrics_A = PNum 15 \<and> Earnings_Growth_pct metrics_A = PNum 10
   \<and> Revenue_Growth_pct metrics_A = PNaN"
proof -
  have p: "example_provider ''A'' = Inr info_A"
    by (simp add: example_provider_def)
  have r: "info_get info_A ''returnOnEquity'' = PNum 0.15"
    and e: "info_get info_A ''earningsGrowth'' = PNum 0.1"
    and g: "info_get info_A ''revenueGrowth'' = PNum 0"
    by (simp_all add: info_get_def info_A_def)
  from C10_zero_ratio_recorded_as_nan [of example_provider "''A''" info_A] p fetch_A
  have R: "\<forall>x. info_get info_A ''returnOnEquity'' = PNum x \<longrightarrow>
              ROE_pct metrics_A = (if x = 0 then PNaN else PNum (x * 100))"
    and E: "\<forall>x. info_get info_A ''earningsGrowth'' = PNum x \<longrightarrow>
              Earnings_Growth_pct metrics_A = (if x = 0 then PNaN else PNum (x * 100))"
    and G: "\<forall>x. info_get info_A ''revenueGrowth'' = PNum x \<longrightarrow>
              Revenue_Growth_pct metrics_A = (if x = 0 then PNaN else PNum (x * 100))"
    by blast+
  from R r have "ROE_pct metrics_A = (if (0.15::real) = 0 then PNaN else PNum (0.15 * 100))"
    by blast
  then have r': "ROE_pct metrics_A = PNum 15" by simp
  from E e
  have "Earnings_Growth_pct metrics_A = (if (0.1::real) = 0 then PNaN else PNum (0.1 * 100))"
    by blast
  then have e': "Earnings_Growth_pct metrics_A = PNum 10" by simp
  from G g
  have "Revenue_Growth_pct metrics_A = (if (0::real) = 0 then PNaN else PNum (0 * 100))"
    by blast
  then have g': "Revenue_Growth_pct metrics_A = PNaN" by simp
  from p r e g fetch_A r' e' g' show ?thesis by blast
qed

section \<open>Scan, Ranker and Reporter\<close>

text \<open>A symbol whose fetch returned \<^verbatim>\<open>None\<close> leaves the results as they are.\<close>

lemma run_step_skips_None:
  "fetch_stock_metrics provider t = None \<Longrightarrow> run_step provider th results t = Inr results"
  by (simp add: run_step_def)


lemma value_score_A: "value_score metrics_A = Inr (PNum 397.2)"
  by (simp add: value_score_def fillna_def py_mul_float_def py_add_def py_sub_def bind_err_def
        metrics_A_def)


text \<open>
  C7, at the failing input: the provider answers for \<^verbatim>\<open>S\<close> with a payload whose
  trailing P/E is the text \<^verbatim>\<open>Infinity\<close>. Nothing raises inside the \<^verbatim>\<open>try\<close> block, so
  the fetcher returns the snapshot with that text in it; the comparison of the first
  clause of \<^verbatim>\<open>undervalued\<close> then raises \<^verbatim>\<open>TypeError\<close> in the main loop, and the scan
  of \<^verbatim>\<open>A\<close>, \<^verbatim>\<open>S\<close>, \<^verbatim>\<open>B\<close> ends with that error instead of the result it has collected
  for \<^verbatim>\<open>A\<close>. A failure that the fetcher does catch (\<^verbatim>\<open>ZZ\<close>) is skipped and the scan goes
  on to \<^verbatim>\<open>B\<close>.
\<close>

theorem C7_text_field_aborts_scan:
  "example_provider ''S'' = Inr info_S
   \<and> info_get info_S ''trailingPE'' = PStr ''Infinity''
   \<and> fetch_stock_metrics example_provider ''S'' = Some metrics_S
   \<and> run_step example_provider default_thresholds [metrics_A] ''S'' = Inl TypeError
   \<and> run_loop example_provider default_thresholds [''A'', ''S'', ''B''] [] = Inl TypeError
   \<and> run (Inr [''A'', ''S'', ''B'']) example_provider default_thresholds (\<lambda>k rows. rows)
       = Inl TypeError
   \<and> fetch_stock_metrics example_provider ''ZZ'' = None
   \<and> run_loop example_provider default_thresholds [''A'', ''ZZ'', ''B''] [] = Inr [metrics_A]
   \<and> run (Inr [''A'', ''ZZ'', ''B'']) example_provider default_thresholds (\<lambda>k rows. rows)
       = Inr (Found [(metrics_A, PNum 397.2)])"
proof -
  have p: "example_provider ''S'' = Inr info_S"
    by (simp add: example_provider_def)
  have i: "info_get info_S ''trailingPE'' = PStr ''Infinity''"
    by (simp add: info_get_def info_S_def)
  have s: "run_step example_provider default_thresholds [metrics_A] ''S'' = Inl TypeError"
    by (simp add: run_step_def fetch_S passes_S bind_err_def)
  have l: "run_loop example_provider default_thresholds [''A'', ''S'', ''B''] [] = Inl TypeError"
    by (simp add: run_step_def fetch_A fetch_S passes_A passes_S bind_err_def)
  have k: "run_loop example_provider default_thresholds [''A'', ''ZZ'', ''B''] [] = Inr [metrics_A]"
    by (simp add: run_step_def fetch_A fetch_ZZ fetch_B passes_A passes_B bind_err_def)
  have r: "run (Inr [''A'', ''S'', ''B'']) example_provider default_thresholds (\<lambda>k rows. rows)
             = Inl TypeError"
    by (simp add: run_def bind_err_def l del: run_loop.simps)
  have f: "run (Inr [''A'', ''ZZ'', ''B'']) example_provider default_thresholds (\<lambda>k rows. rows)
             = Inr (Found [(metrics_A, PNum 397.2)])"
    by (simp add: run_def report_def bind_err_def k value_score_A del: run_loop.simps)
  from p i fetch_S s l r fetch_ZZ k f show ?thesis by blast
qed



text \<open>
  C8: when no record passes the screen the run ends normally with the distinct outcome
  \<^verbatim>\<open>NoMatches\<close>: the reporter answers \<^verbatim>\<open>NoMatches\<close> exactly for the empty result
  list, without raising, so no frame (table or export) is built from zero records.
\<close>

theorem C8_no_matches_outcome:
  "report sort_values [] = Inr NoMatches
   \<and> (report sort_values results = Inr NoMatches) = (results = [])
   \<and> (run_loop provider th tickers [] = Inr [] \<longrightarrow>
        run (Inr tickers) provider th sort_values = Inr NoMatches)"
  by (auto simp: report_def run_def bind_err_def split: sum.splits)

theorem C8_no_matches_outcome_witness:
  "run_loop example_provider default_thresholds [''B'', ''ZZ'', ''C''] [] = Inr []
   \<and> run (Inr [''B'', ''ZZ'', ''C'']) example_provider default_thresholds (\<lambda>k rows. rows)
       = Inr NoMatches"
proof -
  have l: "run_loop example_provider default_thresholds [''B'', ''ZZ'', ''C''] [] = Inr []"
    by (simp add: run_step_def fetch_B fetch_ZZ fetch_C passes_B passes_C bind_err_def)
  from C8_no_matches_outcome
         [of "\<lambda>k rows. rows" "[]" example_provider default_thresholds "[''B'', ''ZZ'', ''C'']"] l
  show ?thesis by blast
qed

end
